theory Spec2Isabelle
  imports Main "HOL-Library.Word"
begin

unbundle bit_operations_syntax

section \<open>Data model of the mapper services\<close>

text \<open>
  The two translation units \<^verbatim>\<open>graphics/mapper/2.0/Mapper.cpp\<close> and
  \<^verbatim>\<open>graphics/mapper/4.0/Mapper.cpp\<close> are embedded side by side. A definition that
  exists in both carries the suffix \<open>_v2\<close> or \<open>_v4\<close>; file-static helpers whose
  text is the same in both files (\<open>getValidBufferUsageMask\<close>, \<open>getFenceFd\<close>,
  \<open>getFenceHandle\<close>) are embedded once.
\<close>

datatype Error = NONE | BAD_VALUE | BAD_BUFFER | NO_RESOURCES | UNSUPPORTED

text \<open>
  \<open>native_handle_t\<close>: the counts are C \<open>int\<close>s, \<open>data\<close> holds the descriptors
  followed by the integers. A pointer to a handle is an \<open>option\<close>; \<open>None\<close> is
  \<open>nullptr\<close>.
\<close>

record native_handle =
  numFds :: int
  numInts :: int
  data :: "int list"

type_synonym handle_ptr = "native_handle option"

text \<open>A \<open>void*\<close> into mapped memory: an address, \<open>None\<close> for \<open>nullptr\<close>.\<close>

type_synonym void_ptr = "nat option"

text \<open>
  \<open>IMapper::BufferDescriptorInfo\<close>. The 4.0 structure has the fields of the 2.0 one
  and, in addition, \<open>name\<close> and \<open>reservedSize\<close>; it is written as an extension so
  that the common fields keep the names of the source.
\<close>

record BufferDescriptorInfo_v2 =
  width :: "32 word"
  height :: "32 word"
  layerCount :: "32 word"
  format :: "32 word"
  usage :: "64 word"

record BufferDescriptorInfo_v4 = BufferDescriptorInfo_v2 +
  name :: string
  reservedSize :: "64 word"

text \<open>\<open>IMapper::Rect\<close> and \<open>gralloc1_rect_t\<close>: four \<open>int32_t\<close>.\<close>

record Rect =
  rect_left :: "32 word"
  rect_top :: "32 word"
  rect_width :: "32 word"
  rect_height :: "32 word"

subsection \<open>Buffer usage bits\<close>

text \<open>
  The members of the platform enumeration \<open>BufferUsage\<close> (a \<open>uint64_t\<close> bit field
  of \<^verbatim>\<open>android.hardware.graphics.common\<close>) that the source names. The enumeration
  itself is declared by the platform, not by these sources.
\<close>

definition CPU_READ_MASK :: "64 word" where "CPU_READ_MASK = 0xf"
definition CPU_WRITE_MASK :: "64 word" where "CPU_WRITE_MASK = push_bit 4 0xf"
definition GPU_TEXTURE :: "64 word" where "GPU_TEXTURE = push_bit 8 1"
definition GPU_RENDER_TARGET :: "64 word" where "GPU_RENDER_TARGET = push_bit 9 1"
definition COMPOSER_OVERLAY :: "64 word" where "COMPOSER_OVERLAY = push_bit 11 1"
definition COMPOSER_CLIENT_TARGET :: "64 word" where "COMPOSER_CLIENT_TARGET = push_bit 12 1"
definition PROTECTED :: "64 word" where "PROTECTED = push_bit 14 1"
definition COMPOSER_CURSOR :: "64 word" where "COMPOSER_CURSOR = push_bit 15 1"
definition VIDEO_ENCODER :: "64 word" where "VIDEO_ENCODER = push_bit 16 1"
definition CAMERA_OUTPUT :: "64 word" where "CAMERA_OUTPUT = push_bit 17 1"
definition CAMERA_INPUT :: "64 word" where "CAMERA_INPUT = push_bit 18 1"
definition RENDERSCRIPT :: "64 word" where "RENDERSCRIPT = push_bit 20 1"
definition VIDEO_DECODER :: "64 word" where "VIDEO_DECODER = push_bit 22 1"
definition SENSOR_DIRECT_DATA :: "64 word" where "SENSOR_DIRECT_DATA = push_bit 23 1"
definition GPU_DATA_BUFFER :: "64 word" where "GPU_DATA_BUFFER = push_bit 24 1"
definition VENDOR_MASK :: "64 word" where "VENDOR_MASK = push_bit 28 0xf"
definition VENDOR_MASK_HI :: "64 word" where "VENDOR_MASK_HI = push_bit 48 0xffff"

definition getValidBufferUsageMask :: "64 word" where
  "getValidBufferUsageMask =
     (CPU_READ_MASK OR CPU_WRITE_MASK OR GPU_TEXTURE OR
      GPU_RENDER_TARGET OR COMPOSER_OVERLAY OR
      COMPOSER_CLIENT_TARGET OR PROTECTED OR
      COMPOSER_CURSOR OR VIDEO_ENCODER OR
      CAMERA_OUTPUT OR CAMERA_INPUT OR RENDERSCRIPT OR
      VIDEO_DECODER OR SENSOR_DIRECT_DATA OR
      GPU_DATA_BUFFER OR VENDOR_MASK OR
      VENDOR_MASK_HI)"

section \<open>createDescriptor\<close>

text \<open>
  The result of \<open>createDescriptor\<close> is what the callback receives (the error and the
  descriptor) together with the warnings written by \<open>ALOGW\<close>: each warning is the
  value printed, the usage bits outside the valid mask.

  The descriptor encoders belong to the platform
  (\<open>grallocEncodeBufferDescriptor\<close> of the 2.0 passthrough library,
  \<open>gralloc4::encodeBufferDescriptorInfo\<close> of libgralloctypes) and are parameters.
  The 4.0 encoder returns a status and the content it left in the output vector, which
  was empty when it was called.
\<close>

definition createDescriptor_v2 ::
  "(BufferDescriptorInfo_v2 \<Rightarrow> 32 word list) \<Rightarrow> BufferDescriptorInfo_v2
     \<Rightarrow> Error \<times> 32 word list \<times> 64 word list" where
  "createDescriptor_v2 grallocEncodeBufferDescriptor descriptorInfo =
     (let error =
        (if width descriptorInfo = 0 \<or> height descriptorInfo = 0
            \<or> layerCount descriptorInfo = 0 then BAD_VALUE
         else if layerCount descriptorInfo \<noteq> 1 then UNSUPPORTED
         else if format descriptorInfo = 0 then BAD_VALUE
         else NONE)
      in if error = NONE then
           (let validUsageBits = getValidBufferUsageMask;
                warnings =
                  (if usage descriptorInfo AND NOT validUsageBits \<noteq> 0
                   then [usage descriptorInfo AND NOT validUsageBits] else [])
            in (error, grallocEncodeBufferDescriptor descriptorInfo, warnings))
         else (error, [], []))"

definition createDescriptor_v4 ::
  "(BufferDescriptorInfo_v4 \<Rightarrow> int \<times> 8 word list) \<Rightarrow> BufferDescriptorInfo_v4
     \<Rightarrow> Error \<times> 8 word list \<times> 64 word list" where
  "createDescriptor_v4 encodeBufferDescriptorInfo descriptorInfo =
     (let error =
        (if width descriptorInfo = 0 \<or> height descriptorInfo = 0
            \<or> layerCount descriptorInfo = 0 then BAD_VALUE
         else if layerCount descriptorInfo \<noteq> 1 then UNSUPPORTED
         else if format descriptorInfo = 0 then BAD_VALUE
         else NONE)
      in if error = NONE then
           (let validUsageBits = getValidBufferUsageMask;
                warnings =
                  (if usage descriptorInfo AND NOT validUsageBits \<noteq> 0
                   then [usage descriptorInfo AND NOT validUsageBits] else []);
                (ret, descriptor) = encodeBufferDescriptorInfo descriptorInfo
            in if ret \<noteq> 0 then (BAD_VALUE, descriptor, warnings)
               else (error, descriptor, warnings))
         else (error, [], []))"

section \<open>The environment: driver, C library and platform calls\<close>

text \<open>
  Everything the mapper calls outside its own translation unit is a parameter. The
  external calls act on a state \<open>'d\<close> that the mapper cannot inspect (the GBM or DRM
  driver's registration tables, the process's descriptor table). An entry point that
  returns a C status returns it as an \<open>int\<close>; an output parameter is returned as the
  value it holds after the call.

  \<^item> \<open>native_handle_clone\<close>, \<open>native_handle_close\<close>, \<open>native_handle_delete\<close>:
    libcutils; a clone that fails is \<open>None\<close>.
  \<^item> \<open>os_dup\<close>: \<open>dup(2)\<close> on a descriptor that is not negative.
  \<^item> \<open>sync_wait\<close>: the wait inside \<open>Fence::waitForever\<close>; \<open>None\<close> when the fence
    never signals, so that the caller never returns.
  \<^item> \<open>gbm_mod_*\<close>: the GBM module of the 2.0 mapper (\<^verbatim>\<open>gbm_module.h\<close>); the module
    pointer \<open>mModule\<close> is part of \<open>'d\<close>.
  \<^item> \<open>drm_*\<close>: the DRM binding of the 4.0 mapper (\<^verbatim>\<open>drm_gralloc.h\<close>).
    \<open>drm_free\<close> is given a status like the others; the 4.0 mapper never reads it.
\<close>

record android_ycbcr =
  y :: void_ptr
  cb :: void_ptr
  cr :: void_ptr
  ystride :: "64 word"
  cstride :: "64 word"
  chroma_step :: "64 word"

record YCbCrLayout =
  layout_y :: void_ptr
  layout_cb :: void_ptr
  layout_cr :: void_ptr
  yStride :: "32 word"
  cStride :: "32 word"
  chromaStep :: "32 word"

record 'd environment =
  native_handle_clone :: "'d \<Rightarrow> native_handle \<Rightarrow> handle_ptr \<times> 'd"
  native_handle_close :: "'d \<Rightarrow> handle_ptr \<Rightarrow> int \<times> 'd"
  native_handle_delete :: "'d \<Rightarrow> handle_ptr \<Rightarrow> int \<times> 'd"
  os_dup :: "'d \<Rightarrow> int \<Rightarrow> int \<times> 'd"
  sync_wait :: "'d \<Rightarrow> int \<Rightarrow> 'd option"
  gbm_mod_register :: "'d \<Rightarrow> handle_ptr \<Rightarrow> int \<times> 'd"
  gbm_mod_unregister :: "'d \<Rightarrow> native_handle \<Rightarrow> int \<times> 'd"
  gbm_mod_lock ::
    "'d \<Rightarrow> native_handle \<Rightarrow> 32 word \<Rightarrow> 32 word \<Rightarrow> 32 word \<Rightarrow> 32 word \<Rightarrow> 32 word
       \<Rightarrow> (int \<times> void_ptr) \<times> 'd"
  gbm_mod_lock_ycbcr ::
    "'d \<Rightarrow> native_handle \<Rightarrow> 32 word \<Rightarrow> 32 word \<Rightarrow> 32 word \<Rightarrow> 32 word \<Rightarrow> 32 word
       \<Rightarrow> (int \<times> android_ycbcr) \<times> 'd"
  gbm_mod_unlock :: "'d \<Rightarrow> native_handle \<Rightarrow> int \<times> 'd"
  drm_register :: "'d \<Rightarrow> int \<Rightarrow> handle_ptr \<Rightarrow> int \<times> 'd"
  drm_free :: "'d \<Rightarrow> int \<Rightarrow> native_handle \<Rightarrow> int \<times> 'd"
  drm_lock :: "'d \<Rightarrow> native_handle \<Rightarrow> (int \<times> void_ptr) \<times> 'd"
  drm_unlock :: "'d \<Rightarrow> native_handle \<Rightarrow> int \<times> 'd"

text \<open>
  Every external call that the source writes out is recorded, with its arguments, in
  the order in which the mapper makes it. The trace is what "calls the driver", "waits
  first" and "makes no call" mean below. Not recorded: the descriptors that the
  destructors of \<open>unique_fd\<close> and \<open>Fence\<close> close when a function returns, and the
  log lines of \<open>ALOGV\<close> and \<open>ALOGE\<close>.
\<close>

datatype event =
    Ev_native_handle_clone native_handle
  | Ev_native_handle_close handle_ptr
  | Ev_native_handle_delete handle_ptr
  | Ev_dup int
  | Ev_waitForever int
  | Ev_gbm_mod_register handle_ptr
  | Ev_gbm_mod_unregister native_handle
  | Ev_gbm_mod_lock native_handle "32 word" "32 word" "32 word" "32 word" "32 word"
  | Ev_gbm_mod_lock_ycbcr native_handle "32 word" "32 word" "32 word" "32 word" "32 word"
  | Ev_gbm_mod_unlock native_handle
  | Ev_drm_register int handle_ptr
  | Ev_drm_free int native_handle
  | Ev_drm_lock native_handle
  | Ev_drm_unlock native_handle

record 'd world =
  ext :: 'd
  calls :: "event list"

definition ext_call :: "event \<Rightarrow> ('d \<Rightarrow> 'a \<times> 'd) \<Rightarrow> 'd world \<Rightarrow> 'a \<times> 'd world" where
  "ext_call ev f w =
     (let (r, d') = f (ext w) in (r, \<lparr>ext = d', calls = calls w @ [ev]\<rparr>))"

text \<open>
  \<open>dup(2)\<close>: a negative descriptor is rejected with \<open>-1\<close> (\<open>EBADF\<close>) and nothing
  changes; otherwise the outcome is the environment's.
\<close>

definition sys_dup :: "'d environment \<Rightarrow> int \<Rightarrow> 'd world \<Rightarrow> int \<times> 'd world" where
  "sys_dup e fd w =
     ext_call (Ev_dup fd) (\<lambda>d. if fd < 0 then (- 1, d) else os_dup e d fd) w"

text \<open>
  The platform's \<open>Fence\<close> (libui) wraps one descriptor. \<open>Fence::NO_FENCE\<close> wraps
  \<open>-1\<close>; \<open>Fence::dup\<close> is \<open>dup\<close> of the wrapped descriptor;
  \<open>Fence::waitForever\<close> returns at once on \<open>-1\<close> and otherwise blocks until the
  fence signals. A fence is represented by its descriptor.
\<close>

definition NO_FENCE :: int where
  "NO_FENCE = - 1"

definition Fence_dup :: "'d environment \<Rightarrow> int \<Rightarrow> 'd world \<Rightarrow> int \<times> 'd world" where
  "Fence_dup e mFenceFd w = sys_dup e mFenceFd w"

definition Fence_waitForever :: "'d environment \<Rightarrow> int \<Rightarrow> 'd world \<Rightarrow> 'd world option" where
  "Fence_waitForever e mFenceFd w =
     (if mFenceFd = - 1 then Some (w\<lparr>calls := calls w @ [Ev_waitForever mFenceFd]\<rparr>)
      else (case sync_wait e (ext w) mFenceFd of
              None \<Rightarrow> None
            | Some d' \<Rightarrow> Some \<lparr>ext = d', calls = calls w @ [Ev_waitForever mFenceFd]\<rparr>))"

section \<open>importBuffer and freeBuffer\<close>

definition importBuffer_v2 ::
  "'d environment \<Rightarrow> handle_ptr \<Rightarrow> 'd world \<Rightarrow> (Error \<times> handle_ptr) \<times> 'd world" where
  "importBuffer_v2 e rawHandle w =
     (case rawHandle of
        None \<Rightarrow> ((BAD_BUFFER, None), w)
      | Some raw \<Rightarrow>
          (let (bufferHandle, w1) =
                 ext_call (Ev_native_handle_clone raw) (\<lambda>d. native_handle_clone e d raw) w;
               error = (if bufferHandle = None then NO_RESOURCES else NONE);
               (result, w2) =
                 ext_call (Ev_gbm_mod_register bufferHandle)
                   (\<lambda>d. gbm_mod_register e d bufferHandle) w1
           in if result \<noteq> 0 then
                (let (_, w3) =
                       ext_call (Ev_native_handle_close bufferHandle)
                         (\<lambda>d. native_handle_close e d bufferHandle) w2;
                     (_, w4) =
                       ext_call (Ev_native_handle_delete bufferHandle)
                         (\<lambda>d. native_handle_delete e d bufferHandle) w3
                 in ((NO_RESOURCES, None), w4))
              else ((error, bufferHandle), w2)))"

definition importBuffer_v4 ::
  "'d environment \<Rightarrow> int \<Rightarrow> handle_ptr \<Rightarrow> 'd world \<Rightarrow> (Error \<times> handle_ptr) \<times> 'd world" where
  "importBuffer_v4 e kms_fd rawHandle w =
     (case rawHandle of
        None \<Rightarrow> ((BAD_BUFFER, None), w)
      | Some raw \<Rightarrow>
          (let (bufferHandle, w1) =
                 ext_call (Ev_native_handle_clone raw) (\<lambda>d. native_handle_clone e d raw) w;
               error = (if bufferHandle = None then NO_RESOURCES else NONE);
               (result, w2) =
                 ext_call (Ev_drm_register kms_fd bufferHandle)
                   (\<lambda>d. drm_register e d kms_fd bufferHandle) w1
           in if result \<noteq> 0 then
                (let (_, w3) =
                       ext_call (Ev_native_handle_close bufferHandle)
                         (\<lambda>d. native_handle_close e d bufferHandle) w2;
                     (_, w4) =
                       ext_call (Ev_native_handle_delete bufferHandle)
                         (\<lambda>d. native_handle_delete e d bufferHandle) w3
                 in ((NO_RESOURCES, None), w4))
              else ((error, bufferHandle), w2)))"

definition freeBuffer_v2 :: "'d environment \<Rightarrow> handle_ptr \<Rightarrow> 'd world \<Rightarrow> Error \<times> 'd world" where
  "freeBuffer_v2 e buffer w =
     (case buffer of
        None \<Rightarrow> (BAD_BUFFER, w)
      | Some bufferHandle \<Rightarrow>
          (let (result, w1) =
                 ext_call (Ev_gbm_mod_unregister bufferHandle)
                   (\<lambda>d. gbm_mod_unregister e d bufferHandle) w
           in if result \<noteq> 0 then (UNSUPPORTED, w1)
              else
                (let (_, w2) =
                       ext_call (Ev_native_handle_close (Some bufferHandle))
                         (\<lambda>d. native_handle_close e d (Some bufferHandle)) w1;
                     (_, w3) =
                       ext_call (Ev_native_handle_delete (Some bufferHandle))
                         (\<lambda>d. native_handle_delete e d (Some bufferHandle)) w2
                 in (NONE, w3))))"

definition freeBuffer_v4 ::
  "'d environment \<Rightarrow> int \<Rightarrow> handle_ptr \<Rightarrow> 'd world \<Rightarrow> Error \<times> 'd world" where
  "freeBuffer_v4 e kms_fd buffer w =
     (case buffer of
        None \<Rightarrow> (BAD_BUFFER, w)
      | Some bufferHandle \<Rightarrow>
          (let (_, w1) =
                 ext_call (Ev_drm_free kms_fd bufferHandle)
                   (\<lambda>d. drm_free e d kms_fd bufferHandle) w;
               (_, w2) =
                 ext_call (Ev_native_handle_close (Some bufferHandle))
                   (\<lambda>d. native_handle_close e d (Some bufferHandle)) w1;
               (_, w3) =
                 ext_call (Ev_native_handle_delete (Some bufferHandle))
                   (\<lambda>d. native_handle_delete e d (Some bufferHandle)) w2
           in (NONE, w3)))"

section \<open>lock, lockYCbCr and unlock\<close>

text \<open>
  \<open>getFenceFd\<close> returns its error together with the content of \<open>*outFenceFd\<close>
  after the call. The \<open>unique_fd\<close> it is given is freshly constructed by every
  caller and holds \<open>-1\<close>; the two early returns leave it untouched. \<open>data[0]\<close> is
  read only when \<open>numFds\<close> is 1.
\<close>

definition getFenceFd ::
  "'d environment \<Rightarrow> handle_ptr \<Rightarrow> 'd world \<Rightarrow> (Error \<times> int) \<times> 'd world" where
  "getFenceFd e fenceHandle w =
     (case fenceHandle of
        None \<Rightarrow> ((NONE, - 1), w)
      | Some handle \<Rightarrow>
          if numFds handle > 1 then ((BAD_VALUE, - 1), w)
          else
            (let fenceFd = (if numFds handle = 1 then data handle ! 0 else - 1)
             in if fenceFd \<ge> 0 then
                  (let (fenceFd', w1) = sys_dup e fenceFd w
                   in if fenceFd' < 0 then ((NO_RESOURCES, - 1), w1)
                      else ((NONE, fenceFd'), w1))
                else ((NONE, fenceFd), w)))"

text \<open>
  The usage handed to the GBM module: \<open>pUsage\<close> and \<open>cUsage\<close> are 64-bit
  enumerations, their disjunction is narrowed to \<open>int32_t\<close>.
\<close>

definition lock_usage :: "64 word \<Rightarrow> 32 word" where
  "lock_usage cpuUsage =
     (let pUsage = cpuUsage;
          cUsage = cpuUsage AND NOT CPU_WRITE_MASK
      in ucast (pUsage OR cUsage))"

text \<open>
  The locking entry points return \<open>None\<close> when they never return to the caller (the
  acquire fence never signals), and otherwise what the callback receives and the world
  after the call.
\<close>

definition lock_v2 ::
  "'d environment \<Rightarrow> handle_ptr \<Rightarrow> 64 word \<Rightarrow> Rect \<Rightarrow> handle_ptr \<Rightarrow> 'd world
     \<Rightarrow> ((Error \<times> void_ptr) \<times> 'd world) option" where
  "lock_v2 e buffer cpuUsage accessRegion acquireFence w =
     (case buffer of
        None \<Rightarrow> Some ((BAD_BUFFER, None), w)
      | Some bufferHandle \<Rightarrow>
          (let usage = lock_usage cpuUsage;
               accessRect = \<lparr>rect_left = rect_left accessRegion, rect_top = rect_top accessRegion,
                             rect_width = rect_width accessRegion,
                             rect_height = rect_height accessRegion\<rparr>;
               ((error, fenceFd), w1) = getFenceFd e acquireFence w
           in if error \<noteq> NONE then Some ((error, None), w1)
              else
                (case Fence_waitForever e fenceFd w1 of
                   None \<Rightarrow> None
                 | Some w2 \<Rightarrow>
                     (let ((result, data), w3) =
                            ext_call
                              (Ev_gbm_mod_lock bufferHandle usage (rect_left accessRect)
                                 (rect_top accessRect) (rect_width accessRect)
                                 (rect_height accessRect))
                              (\<lambda>d. gbm_mod_lock e d bufferHandle usage (rect_left accessRect)
                                 (rect_top accessRect) (rect_width accessRect)
                                 (rect_height accessRect)) w2
                      in if result \<noteq> 0 then Some ((UNSUPPORTED, None), w3)
                         else Some ((error, data), w3)))))"

text \<open>\<open>YCbCrLayout{}\<close>: value-initialised, all members zero.\<close>

definition YCbCrLayout_zero :: YCbCrLayout where
  "YCbCrLayout_zero =
     \<lparr>layout_y = None, layout_cb = None, layout_cr = None,
      yStride = 0, cStride = 0, chromaStep = 0\<rparr>"

definition lockYCbCr ::
  "'d environment \<Rightarrow> handle_ptr \<Rightarrow> 64 word \<Rightarrow> Rect \<Rightarrow> handle_ptr \<Rightarrow> 'd world
     \<Rightarrow> ((Error \<times> YCbCrLayout) \<times> 'd world) option" where
  "lockYCbCr e buffer cpuUsage accessRegion acquireFence w =
     (case buffer of
        None \<Rightarrow> Some ((BAD_BUFFER, YCbCrLayout_zero), w)
      | Some bufferHandle \<Rightarrow>
          (let usage = lock_usage cpuUsage;
               accessRect = \<lparr>rect_left = rect_left accessRegion, rect_top = rect_top accessRegion,
                             rect_width = rect_width accessRegion,
                             rect_height = rect_height accessRegion\<rparr>;
               ((error, fenceFd), w1) = getFenceFd e acquireFence w
           in if error \<noteq> NONE then Some ((error, YCbCrLayout_zero), w1)
              else
                (case Fence_waitForever e fenceFd w1 of
                   None \<Rightarrow> None
                 | Some w2 \<Rightarrow>
                     (let ((result, ycbcr), w3) =
                            ext_call
                              (Ev_gbm_mod_lock_ycbcr bufferHandle usage (rect_left accessRect)
                                 (rect_top accessRect) (rect_width accessRect)
                                 (rect_height accessRect))
                              (\<lambda>d. gbm_mod_lock_ycbcr e d bufferHandle usage
                                 (rect_left accessRect) (rect_top accessRect)
                                 (rect_width accessRect) (rect_height accessRect)) w2
                      in if result \<noteq> 0 then Some ((UNSUPPORTED, YCbCrLayout_zero), w3)
                         else
                           (let layout =
                                  \<lparr>layout_y = y ycbcr, layout_cb = cb ycbcr,
                                   layout_cr = cr ycbcr,
                                   yStride = ucast (ystride ycbcr),
                                   cStride = ucast (cstride ycbcr),
                                   chromaStep = ucast (chroma_step ycbcr)\<rparr>
                            in Some ((error, layout), w3))))))"

text \<open>The 4.0 \<open>lock\<close> leaves its \<open>cpuUsage\<close> and \<open>accessRegion\<close> parameters unnamed.\<close>

definition lock_v4 ::
  "'d environment \<Rightarrow> handle_ptr \<Rightarrow> 64 word \<Rightarrow> Rect \<Rightarrow> handle_ptr \<Rightarrow> 'd world
     \<Rightarrow> ((Error \<times> void_ptr) \<times> 'd world) option" where
  "lock_v4 e buffer cpuUsage accessRegion acquireFence w =
     (case buffer of
        None \<Rightarrow> Some ((BAD_BUFFER, None), w)
      | Some bufferHandle \<Rightarrow>
          (let ((error, fenceFd), w1) = getFenceFd e acquireFence w
           in if error \<noteq> NONE then Some ((error, None), w1)
              else
                (case Fence_waitForever e fenceFd w1 of
                   None \<Rightarrow> None
                 | Some w2 \<Rightarrow>
                     (let ((result, data), w3) =
                            ext_call (Ev_drm_lock bufferHandle)
                              (\<lambda>d. drm_lock e d bufferHandle) w2
                      in if result \<noteq> 0 then Some ((UNSUPPORTED, None), w3)
                         else Some ((error, data), w3)))))"

text \<open>
  \<open>getFenceHandle\<close>: \<open>native_handle_init(handleStorage, 1, 0)\<close> makes a handle of one
  descriptor and no integers.
\<close>

definition getFenceHandle :: "int \<Rightarrow> handle_ptr" where
  "getFenceHandle fenceFd =
     (if fenceFd \<ge> 0 then Some \<lparr>numFds = 1, numInts = 0, data = [fenceFd]\<rparr> else None)"

definition unlock_v2 ::
  "'d environment \<Rightarrow> handle_ptr \<Rightarrow> 'd world \<Rightarrow> (Error \<times> handle_ptr) \<times> 'd world" where
  "unlock_v2 e buffer w =
     (case buffer of
        None \<Rightarrow> ((BAD_BUFFER, None), w)
      | Some bufferHandle \<Rightarrow>
          (let (result, w1) =
                 ext_call (Ev_gbm_mod_unlock bufferHandle)
                   (\<lambda>d. gbm_mod_unlock e d bufferHandle) w
           in if result \<noteq> 0 then ((UNSUPPORTED, None), w1)
              else
                (let (fenceFd, w2) = Fence_dup e NO_FENCE w1
                 in ((NONE, getFenceHandle fenceFd), w2))))"

definition unlock_v4 ::
  "'d environment \<Rightarrow> handle_ptr \<Rightarrow> 'd world \<Rightarrow> (Error \<times> handle_ptr) \<times> 'd world" where
  "unlock_v4 e buffer w =
     (case buffer of
        None \<Rightarrow> ((BAD_BUFFER, None), w)
      | Some bufferHandle \<Rightarrow>
          (let (result, w1) =
                 ext_call (Ev_drm_unlock bufferHandle) (\<lambda>d. drm_unlock e d bufferHandle) w
           in if result \<noteq> 0 then ((UNSUPPORTED, None), w1)
              else
                (let (fenceFd, w2) = Fence_dup e NO_FENCE w1
                 in ((NONE, getFenceHandle fenceFd), w2))))"

section \<open>The 4.0 additions\<close>

definition flushLockedBuffer ::
  "'d environment \<Rightarrow> handle_ptr \<Rightarrow> 'd world \<Rightarrow> (Error \<times> handle_ptr) \<times> 'd world" where
  "flushLockedBuffer e buffer w =
     (case buffer of
        None \<Rightarrow> ((BAD_BUFFER, None), w)
      | Some bufferHandle \<Rightarrow>
          (let (result, w1) =
                 ext_call (Ev_drm_unlock bufferHandle) (\<lambda>d. drm_unlock e d bufferHandle) w
           in if result \<noteq> 0 then ((UNSUPPORTED, None), w1)
              else
                (let (fenceFd, w2) = Fence_dup e NO_FENCE w1
                 in ((NONE, getFenceHandle fenceFd), w2))))"

text \<open>
  Metadata. \<open>MetadataType\<close> is the HIDL pair of a name and a value;
  \<open>StandardMetadataType\<close> and \<open>Dataspace\<close> are platform enumerations (of
  \<^verbatim>\<open>android.hardware.graphics.common\<close>), given here by their values. The three
  functions of libgralloctypes that \<open>get\<close> calls are parameters;
  \<open>encodeDataspace\<close> returns its status and the content it left in the output vector,
  which was empty when it was called.
\<close>

record MetadataType =
  type_name :: string
  type_value :: "64 word"

record MetadataTypeDescription =
  described_type :: MetadataType
  description :: string
  isGettable :: bool
  isSettable :: bool

type_synonym StandardMetadataType = "64 word"

definition DATASPACE :: StandardMetadataType where
  "DATASPACE = 17"

type_synonym Dataspace = "32 word"

definition UNKNOWN :: Dataspace where
  "UNKNOWN = 0"

record gralloc4 =
  isStandardMetadataType :: "MetadataType \<Rightarrow> bool"
  getStandardMetadataTypeValue :: "MetadataType \<Rightarrow> StandardMetadataType"
  encodeDataspace :: "Dataspace \<Rightarrow> int \<times> 8 word list"

definition get :: "gralloc4 \<Rightarrow> handle_ptr \<Rightarrow> MetadataType \<Rightarrow> Error \<times> 8 word list" where
  "get g buffer metadataType =
     (case buffer of
        None \<Rightarrow> (BAD_BUFFER, [])
      | Some bufferHandle \<Rightarrow>
          if isStandardMetadataType g metadataType \<and>
             getStandardMetadataTypeValue g metadataType = DATASPACE
          then (let (_, encodedMetadata) = encodeDataspace g UNKNOWN
                in (NONE, encodedMetadata))
          else (UNSUPPORTED, []))"

definition listSupportedMetadataTypes :: "Error \<times> MetadataTypeDescription list" where
  "listSupportedMetadataTypes = (NONE, [])"

section \<open>A reference environment\<close>

text \<open>
  A small environment on which the model can be evaluated. Its state counts the
  registered buffers; every driver entry point answers with the status it is given, a
  successful lock maps the buffer at address 4096, \<open>dup\<close> returns the descriptor
  plus 10, and every fence signals.
\<close>

definition sample_ycbcr :: android_ycbcr where
  "sample_ycbcr =
     \<lparr>y = Some 4096, cb = Some 8192, cr = Some 8193,
      ystride = 64, cstride = 64, chroma_step = 2\<rparr>"

definition zero_ycbcr :: android_ycbcr where
  "zero_ycbcr =
     \<lparr>y = None, cb = None, cr = None, ystride = 0, cstride = 0, chroma_step = 0\<rparr>"

definition sample_env :: "int \<Rightarrow> nat environment" where
  "sample_env status =
     \<lparr>native_handle_clone = (\<lambda>d h. (Some h, d)),
      native_handle_close = (\<lambda>d h. (0, d)),
      native_handle_delete = (\<lambda>d h. (0, d)),
      os_dup = (\<lambda>d fd. (fd + 10, d)),
      sync_wait = (\<lambda>d fd. Some d),
      gbm_mod_register = (\<lambda>d h. (status, if status = 0 then Suc d else d)),
      gbm_mod_unregister = (\<lambda>d h. (status, if status = 0 then d - 1 else d)),
      gbm_mod_lock =
        (\<lambda>d h u l t wd ht. ((status, if status = 0 then Some 4096 else None), d)),
      gbm_mod_lock_ycbcr =
        (\<lambda>d h u l t wd ht. ((status, if status = 0 then sample_ycbcr else zero_ycbcr), d)),
      gbm_mod_unlock = (\<lambda>d h. (status, d)),
      drm_register = (\<lambda>d k h. (status, if status = 0 then Suc d else d)),
      drm_free = (\<lambda>d k h. (status, if status = 0 then d - 1 else d)),
      drm_lock = (\<lambda>d h. ((status, if status = 0 then Some 4096 else None), d)),
      drm_unlock = (\<lambda>d h. (status, d))\<rparr>"

definition sample_world :: "nat world" where
  "sample_world = \<lparr>ext = 1, calls = []\<rparr>"

definition sample_buffer :: native_handle where
  "sample_buffer = \<lparr>numFds = 1, numInts = 2, data = [7, 640, 480]\<rparr>"

definition sample_fence :: native_handle where
  "sample_fence = \<lparr>numFds = 1, numInts = 0, data = [5]\<rparr>"

definition two_fd_fence :: native_handle where
  "two_fd_fence = \<lparr>numFds = 2, numInts = 0, data = [5, 6]\<rparr>"

definition sample_rect :: Rect where
  "sample_rect = \<lparr>rect_left = 0, rect_top = 0, rect_width = 640, rect_height = 480\<rparr>"

definition sample_info :: BufferDescriptorInfo_v2 where
  "sample_info = \<lparr>width = 640, height = 480, layerCount = 1, format = 1, usage = 0x33\<rparr>"

definition sample_info_v4 :: BufferDescriptorInfo_v4 where
  "sample_info_v4 =
     \<lparr>width = 640, height = 480, layerCount = 1, format = 1, usage = 0x33,
      name = ''buffer'', reservedSize = 0\<rparr>"

definition sample_encode_v2 :: "BufferDescriptorInfo_v2 \<Rightarrow> 32 word list" where
  "sample_encode_v2 i =
     [width i, height i, layerCount i, format i, ucast (usage i), ucast (drop_bit 32 (usage i))]"

definition sample_encode_v4 :: "int \<Rightarrow> BufferDescriptorInfo_v4 \<Rightarrow> int \<times> 8 word list" where
  "sample_encode_v4 status i =
     (status, if status = 0 then [ucast (width i), ucast (height i)] else [])"

definition sample_gralloc4 :: gralloc4 where
  "sample_gralloc4 =
     \<lparr>isStandardMetadataType =
        (\<lambda>m. type_name m = ''android.hardware.graphics.common.StandardMetadataType''),
      getStandardMetadataTypeValue = type_value,
      encodeDataspace = (\<lambda>ds. (0, map (\<lambda>i. ucast (drop_bit (8 * i) ds)) [0, 1, 2, 3]))\<rparr>"

definition dataspace_type :: MetadataType where
  "dataspace_type =
     \<lparr>type_name = ''android.hardware.graphics.common.StandardMetadataType'',
      type_value = 17\<rparr>"

section \<open>Auxiliary facts\<close>

lemma getValidBufferUsageMask_value: "getValidBufferUsageMask = 0xFFFF0000F1D7DBFF"
  unfolding getValidBufferUsageMask_def CPU_READ_MASK_def CPU_WRITE_MASK_def GPU_TEXTURE_def
    GPU_RENDER_TARGET_def COMPOSER_OVERLAY_def COMPOSER_CLIENT_TARGET_def PROTECTED_def
    COMPOSER_CURSOR_def VIDEO_ENCODER_def CAMERA_OUTPUT_def CAMERA_INPUT_def RENDERSCRIPT_def
    VIDEO_DECODER_def SENSOR_DIRECT_DATA_def GPU_DATA_BUFFER_def VENDOR_MASK_def
    VENDOR_MASK_HI_def
  by simp

lemma lock_usage_low_bits: "lock_usage cpuUsage = ucast cpuUsage"
  by (simp add: lock_usage_def word_ao_absorbs)

lemma Fence_waitForever_calls:
  "Fence_waitForever e fenceFd w1 = Some w2 \<Longrightarrow> calls w2 = calls w1 @ [Ev_waitForever fenceFd]"
  by (auto simp add: Fence_waitForever_def split: if_splits option.splits)

lemma sample_getFenceFd:
  "getFenceFd (sample_env s) (Some sample_fence) sample_world
     = ((NONE, 15), \<lparr>ext = 1, calls = [Ev_dup 5]\<rparr>)"
  by (simp add: getFenceFd_def sys_dup_def ext_call_def sample_env_def sample_fence_def
      sample_world_def)

lemma sample_waitForever:
  "Fence_waitForever (sample_env s) 15 \<lparr>ext = 1, calls = [Ev_dup 5]\<rparr>
     = Some \<lparr>ext = 1, calls = [Ev_dup 5, Ev_waitForever 15]\<rparr>"
  by (simp add: Fence_waitForever_def sample_env_def)

section \<open>freeBuffer\<close>

text \<open>
  The 4.0 \<open>freeBuffer\<close> never reads what \<open>drm_free\<close> reports: with a driver
  whose \<open>drm_free\<close> answers \<open>-1\<close>, a non-null handle is still released and the
  result is \<open>NONE\<close>, not \<open>UNSUPPORTED\<close>.
\<close>

theorem freeBuffer_v4_ignores_driver_status:
  "fst (drm_free (sample_env (- 1)) (ext sample_world) 3 sample_buffer) \<noteq> 0 \<and>
   fst (freeBuffer_v4 (sample_env (- 1)) 3 (Some sample_buffer) sample_world) = NONE \<and>
   fst (freeBuffer_v4 (sample_env (- 1)) 3 (Some sample_buffer) sample_world) \<noteq> UNSUPPORTED"
  by (simp add: freeBuffer_v4_def ext_call_def sample_env_def sample_world_def)

text \<open>
  Claim C1, as amended. A null handle gives \<open>BAD_BUFFER\<close> in both mappers. For a
  non-null handle the 2.0 mapper returns \<open>UNSUPPORTED\<close> when \<open>gbm_mod_unregister\<close>
  reports a non-zero status and \<open>NONE\<close> when it reports zero; the 4.0 mapper returns
  \<open>NONE\<close> whatever \<open>drm_free\<close> does.
\<close>

theorem freeBuffer_result:
  "fst (freeBuffer_v2 e buffer w) =
     (case buffer of
        None \<Rightarrow> BAD_BUFFER
      | Some bufferHandle \<Rightarrow>
          if fst (gbm_mod_unregister e (ext w) bufferHandle) \<noteq> 0 then UNSUPPORTED else NONE) \<and>
   fst (freeBuffer_v4 e kms_fd buffer w) =
     (case buffer of None \<Rightarrow> BAD_BUFFER | Some bufferHandle \<Rightarrow> NONE)"
  by (simp add: freeBuffer_v2_def freeBuffer_v4_def ext_call_def
      split: prod.splits option.splits)

theorem freeBuffer_result_witness:
  "fst (freeBuffer_v2 (sample_env (- 1)) (Some sample_buffer) sample_world) = UNSUPPORTED \<and>
   fst (freeBuffer_v2 (sample_env 0) (Some sample_buffer) sample_world) = NONE \<and>
   fst (freeBuffer_v2 (sample_env 0) None sample_world) = BAD_BUFFER \<and>
   fst (freeBuffer_v4 (sample_env (- 1)) 3 (Some sample_buffer) sample_world) = NONE \<and>
   fst (freeBuffer_v4 (sample_env 0) 3 None sample_world) = BAD_BUFFER"
  using freeBuffer_result [of "sample_env (- 1)" "Some sample_buffer" sample_world 3]
    freeBuffer_result [of "sample_env 0" "Some sample_buffer" sample_world 3]
    freeBuffer_result [of "sample_env 0" None sample_world 3]
  by (simp add: sample_env_def)

section \<open>lock and lockYCbCr after the fence\<close>

text \<open>
  The driver of the 4.0 mapper is handed the buffer handle only: two calls of \<open>lock\<close>
  that differ in usage and rectangle make the same driver call. The 2.0 mapper hands
  over the usage narrowed to 32 bits: of the usage \<open>0x1000000000033\<close> the driver sees
  \<open>0x33\<close>.
\<close>

theorem lock_driver_arguments:
  "lock_v4 (sample_env 0) (Some sample_buffer) 0x33 sample_rect (Some sample_fence) sample_world
     = Some ((NONE, Some 4096),
             \<lparr>ext = 1, calls = [Ev_dup 5, Ev_waitForever 15, Ev_drm_lock sample_buffer]\<rparr>) \<and>
   lock_v4 (sample_env 0) (Some sample_buffer) 0
       \<lparr>rect_left = 1, rect_top = 2, rect_width = 3, rect_height = 4\<rparr>
       (Some sample_fence) sample_world
     = Some ((NONE, Some 4096),
             \<lparr>ext = 1, calls = [Ev_dup 5, Ev_waitForever 15, Ev_drm_lock sample_buffer]\<rparr>) \<and>
   lock_v2 (sample_env 0) (Some sample_buffer) 0x1000000000033 sample_rect
       (Some sample_fence) sample_world
     = Some ((NONE, Some 4096),
             \<lparr>ext = 1,
              calls = [Ev_dup 5, Ev_waitForever 15,
                       Ev_gbm_mod_lock sample_buffer 0x33 0 0 640 480]\<rparr>) \<and>
   ucast (0x33 :: 32 word) \<noteq> (0x1000000000033 :: 64 word)"
  by (simp add: lock_v4_def lock_v2_def getFenceFd_def sys_dup_def Fence_waitForever_def
      ext_call_def lock_usage_def CPU_WRITE_MASK_def sample_env_def sample_world_def
      sample_fence_def sample_rect_def)

text \<open>
  Claim C2, as amended. Take a non-null buffer handle and an acquire fence that
  \<open>getFenceFd\<close> accepts (it answers \<open>NONE\<close> with the descriptor \<open>fenceFd\<close>, leaving
  the world \<open>w1\<close>) and that signals (the wait returns). Then \<open>lock\<close> and
  \<open>lockYCbCr\<close> return, and the calls they add after \<open>getFenceFd\<close> are the wait on
  \<open>fenceFd\<close> followed by one driver call. The 2.0 mapper hands the driver the
  caller's rectangle and the low 32 bits of the caller's usage; the 4.0 mapper hands it
  the buffer handle alone. A non-zero driver status gives \<open>UNSUPPORTED\<close> with a null
  pointer (a zero layout); status zero gives \<open>NONE\<close> with the pointer the driver
  provided (the planes it provided, the strides narrowed to 32 bits).
\<close>

theorem lock_waits_then_maps:
  assumes fence: "getFenceFd e acquireFence w = ((NONE, fenceFd), w1)"
    and signalled: "Fence_waitForever e fenceFd w1 = Some w2"
  shows
    "lock_v2 e (Some h) cpuUsage r acquireFence w =
       (case gbm_mod_lock e (ext w2) h (ucast cpuUsage)
               (rect_left r) (rect_top r) (rect_width r) (rect_height r) of
          ((result, addr), d3) \<Rightarrow>
            Some (if result \<noteq> 0 then (UNSUPPORTED, None) else (NONE, addr),
                  \<lparr>ext = d3,
                   calls = calls w1 @
                     [Ev_waitForever fenceFd,
                      Ev_gbm_mod_lock h (ucast cpuUsage)
                        (rect_left r) (rect_top r) (rect_width r) (rect_height r)]\<rparr>)) \<and>
     lockYCbCr e (Some h) cpuUsage r acquireFence w =
       (case gbm_mod_lock_ycbcr e (ext w2) h (ucast cpuUsage)
               (rect_left r) (rect_top r) (rect_width r) (rect_height r) of
          ((result, planes), d3) \<Rightarrow>
            Some (if result \<noteq> 0 then (UNSUPPORTED, YCbCrLayout_zero)
                  else (NONE,
                        \<lparr>layout_y = y planes, layout_cb = cb planes, layout_cr = cr planes,
                         yStride = ucast (ystride planes), cStride = ucast (cstride planes),
                         chromaStep = ucast (chroma_step planes)\<rparr>),
                  \<lparr>ext = d3,
                   calls = calls w1 @
                     [Ev_waitForever fenceFd,
                      Ev_gbm_mod_lock_ycbcr h (ucast cpuUsage)
                        (rect_left r) (rect_top r) (rect_width r) (rect_height r)]\<rparr>)) \<and>
     lock_v4 e (Some h) cpuUsage r acquireFence w =
       (case drm_lock e (ext w2) h of
          ((result, addr), d3) \<Rightarrow>
            Some (if result \<noteq> 0 then (UNSUPPORTED, None) else (NONE, addr),
                  \<lparr>ext = d3,
                   calls = calls w1 @ [Ev_waitForever fenceFd, Ev_drm_lock h]\<rparr>))"
proof -
  have waited: "calls w2 = calls w1 @ [Ev_waitForever fenceFd]"
    using signalled by (rule Fence_waitForever_calls)
  have v2: "lock_v2 e (Some h) cpuUsage r acquireFence w =
       (case gbm_mod_lock e (ext w2) h (ucast cpuUsage)
               (rect_left r) (rect_top r) (rect_width r) (rect_height r) of
          ((result, addr), d3) \<Rightarrow>
            Some (if result \<noteq> 0 then (UNSUPPORTED, None) else (NONE, addr),
                  \<lparr>ext = d3,
                   calls = calls w1 @
                     [Ev_waitForever fenceFd,
                      Ev_gbm_mod_lock h (ucast cpuUsage)
                        (rect_left r) (rect_top r) (rect_width r) (rect_height r)]\<rparr>))"
    by (simp add: lock_v2_def fence signalled waited ext_call_def lock_usage_low_bits
        split: prod.splits)
  have ycbcr: "lockYCbCr e (Some h) cpuUsage r acquireFence w =
       (case gbm_mod_lock_ycbcr e (ext w2) h (ucast cpuUsage)
               (rect_left r) (rect_top r) (rect_width r) (rect_height r) of
          ((result, planes), d3) \<Rightarrow>
            Some (if result \<noteq> 0 then (UNSUPPORTED, YCbCrLayout_zero)
                  else (NONE,
                        \<lparr>layout_y = y planes, layout_cb = cb planes, layout_cr = cr planes,
                         yStride = ucast (ystride planes), cStride = ucast (cstride planes),
                         chromaStep = ucast (chroma_step planes)\<rparr>),
                  \<lparr>ext = d3,
                   calls = calls w1 @
                     [Ev_waitForever fenceFd,
                      Ev_gbm_mod_lock_ycbcr h (ucast cpuUsage)
                        (rect_left r) (rect_top r) (rect_width r) (rect_height r)]\<rparr>))"
    by (simp add: lockYCbCr_def fence signalled waited ext_call_def lock_usage_low_bits
        split: prod.splits)
  have v4: "lock_v4 e (Some h) cpuUsage r acquireFence w =
       (case drm_lock e (ext w2) h of
          ((result, addr), d3) \<Rightarrow>
            Some (if result \<noteq> 0 then (UNSUPPORTED, None) else (NONE, addr),
                  \<lparr>ext = d3,
                   calls = calls w1 @ [Ev_waitForever fenceFd, Ev_drm_lock h]\<rparr>))"
    by (simp add: lock_v4_def fence signalled waited ext_call_def split: prod.splits)
  from v2 ycbcr v4 show ?thesis by (intro conjI)
qed

theorem lock_waits_then_maps_witness:
  "getFenceFd (sample_env 0) (Some sample_fence) sample_world
     = ((NONE, 15), \<lparr>ext = 1, calls = [Ev_dup 5]\<rparr>) \<and>
   Fence_waitForever (sample_env 0) 15 \<lparr>ext = 1, calls = [Ev_dup 5]\<rparr>
     = Some \<lparr>ext = 1, calls = [Ev_dup 5, Ev_waitForever 15]\<rparr> \<and>
   lock_v2 (sample_env 0) (Some sample_buffer) 0x33 sample_rect (Some sample_fence) sample_world
     = Some ((NONE, Some 4096),
             \<lparr>ext = 1,
              calls = [Ev_dup 5, Ev_waitForever 15,
                       Ev_gbm_mod_lock sample_buffer 0x33 0 0 640 480]\<rparr>) \<and>
   lock_v2 (sample_env (- 1)) (Some sample_buffer) 0x33 sample_rect (Some sample_fence)
       sample_world
     = Some ((UNSUPPORTED, None),
             \<lparr>ext = 1,
              calls = [Ev_dup 5, Ev_waitForever 15,
                       Ev_gbm_mod_lock sample_buffer 0x33 0 0 640 480]\<rparr>) \<and>
   lockYCbCr (sample_env 0) (Some sample_buffer) 0x33 sample_rect (Some sample_fence)
       sample_world
     = Some ((NONE,
              \<lparr>layout_y = Some 4096, layout_cb = Some 8192, layout_cr = Some 8193,
               yStride = 64, cStride = 64, chromaStep = 2\<rparr>),
             \<lparr>ext = 1,
              calls = [Ev_dup 5, Ev_waitForever 15,
                       Ev_gbm_mod_lock_ycbcr sample_buffer 0x33 0 0 640 480]\<rparr>) \<and>
   lock_v4 (sample_env 0) (Some sample_buffer) 0x33 sample_rect (Some sample_fence) sample_world
     = Some ((NONE, Some 4096),
             \<lparr>ext = 1, calls = [Ev_dup 5, Ev_waitForever 15, Ev_drm_lock sample_buffer]\<rparr>)"
  using sample_getFenceFd [of 0] sample_waitForever [of 0]
    lock_waits_then_maps [OF sample_getFenceFd [of 0] sample_waitForever [of 0],
      of sample_buffer "0x33" sample_rect]
    lock_waits_then_maps [OF sample_getFenceFd [of "- 1"] sample_waitForever [of "- 1"],
      of sample_buffer "0x33" sample_rect]
  by (simp add: sample_env_def sample_rect_def sample_ycbcr_def)

section \<open>createDescriptor: rejected descriptions\<close>

text \<open>
  The checks are made in order: a description of two layers and width zero is rejected
  with \<open>BAD_VALUE\<close>, not \<open>UNSUPPORTED\<close>.
\<close>

theorem createDescriptor_zero_width_two_layers:
  "layerCount (sample_info\<lparr>width := 0, layerCount := 2\<rparr>) \<noteq> 0 \<and>
   layerCount (sample_info\<lparr>width := 0, layerCount := 2\<rparr>) \<noteq> 1 \<and>
   fst (createDescriptor_v2 sample_encode_v2 (sample_info\<lparr>width := 0, layerCount := 2\<rparr>))
     = BAD_VALUE \<and>
   fst (createDescriptor_v2 sample_encode_v2 (sample_info\<lparr>width := 0, layerCount := 2\<rparr>))
     \<noteq> UNSUPPORTED \<and>
   fst (createDescriptor_v4 (sample_encode_v4 0) (sample_info_v4\<lparr>width := 0, layerCount := 2\<rparr>))
     \<noteq> UNSUPPORTED"
  by (simp add: createDescriptor_v2_def createDescriptor_v4_def sample_info_def
      sample_info_v4_def)

text \<open>
  Claim C3, as amended. In both mappers \<open>createDescriptor\<close> returns \<open>BAD_VALUE\<close>
  (with an empty descriptor and no warning) when width, height or layerCount is 0, and
  \<open>UNSUPPORTED\<close> when width and height are not 0 and layerCount is neither 0 nor 1.
  The 4.0 encoder is not consulted in either case.
\<close>

theorem createDescriptor_rejects:
  "(width i = 0 \<or> height i = 0 \<or> layerCount i = 0
      \<longrightarrow> createDescriptor_v2 enc2 i = (BAD_VALUE, [], [])) \<and>
   (width i \<noteq> 0 \<and> height i \<noteq> 0 \<and> layerCount i \<noteq> 0 \<and> layerCount i \<noteq> 1
      \<longrightarrow> createDescriptor_v2 enc2 i = (UNSUPPORTED, [], [])) \<and>
   (width j = 0 \<or> height j = 0 \<or> layerCount j = 0
      \<longrightarrow> createDescriptor_v4 enc4 j = (BAD_VALUE, [], [])) \<and>
   (width j \<noteq> 0 \<and> height j \<noteq> 0 \<and> layerCount j \<noteq> 0 \<and> layerCount j \<noteq> 1
      \<longrightarrow> createDescriptor_v4 enc4 j = (UNSUPPORTED, [], []))"
  by (simp add: createDescriptor_v2_def createDescriptor_v4_def)

theorem createDescriptor_rejects_witness:
  "createDescriptor_v2 sample_encode_v2 (sample_info\<lparr>height := 0\<rparr>) = (BAD_VALUE, [], []) \<and>
   createDescriptor_v2 sample_encode_v2 (sample_info\<lparr>layerCount := 2\<rparr>) = (UNSUPPORTED, [], []) \<and>
   createDescriptor_v4 (sample_encode_v4 0) (sample_info_v4\<lparr>layerCount := 0\<rparr>)
     = (BAD_VALUE, [], []) \<and>
   createDescriptor_v4 (sample_encode_v4 0) (sample_info_v4\<lparr>layerCount := 2\<rparr>)
     = (UNSUPPORTED, [], [])"
  using createDescriptor_rejects [of "sample_info\<lparr>height := 0\<rparr>" sample_encode_v2
      "sample_info_v4\<lparr>layerCount := 0\<rparr>" "sample_encode_v4 0"]
    createDescriptor_rejects [of "sample_info\<lparr>layerCount := 2\<rparr>" sample_encode_v2
      "sample_info_v4\<lparr>layerCount := 2\<rparr>" "sample_encode_v4 0"]
  by (simp add: sample_info_def sample_info_v4_def)

section \<open>Metadata: get\<close>

text \<open>
  \<open>get\<close> looks at the buffer first: with a null buffer the \<open>DATASPACE\<close> type is
  answered with \<open>BAD_BUFFER\<close>, and so is any other type.
\<close>

theorem get_null_buffer:
  "isStandardMetadataType sample_gralloc4 dataspace_type \<and>
   getStandardMetadataTypeValue sample_gralloc4 dataspace_type = DATASPACE \<and>
   get sample_gralloc4 None dataspace_type = (BAD_BUFFER, []) \<and>
   fst (get sample_gralloc4 None dataspace_type) \<noteq> NONE \<and>
   fst (get sample_gralloc4 None (dataspace_type\<lparr>type_value := 3\<rparr>)) \<noteq> UNSUPPORTED"
  by (simp add: get_def sample_gralloc4_def dataspace_type_def DATASPACE_def)

text \<open>
  Claim C4, as amended. With a null buffer \<open>get\<close> returns \<open>BAD_BUFFER\<close> and empty
  metadata. With a non-null buffer: for the standard metadata type \<open>DATASPACE\<close> the
  result is \<open>NONE\<close> with what \<open>encodeDataspace\<close> wrote for \<open>Dataspace::UNKNOWN\<close>;
  for any other metadata type it is \<open>UNSUPPORTED\<close> with empty metadata.
\<close>

theorem get_result:
  "get g None t = (BAD_BUFFER, []) \<and>
   get g (Some h) t =
     (if isStandardMetadataType g t \<and> getStandardMetadataTypeValue g t = DATASPACE
      then (NONE, snd (encodeDataspace g UNKNOWN)) else (UNSUPPORTED, []))"
  by (simp add: get_def split: prod.splits)

theorem get_result_witness:
  "get sample_gralloc4 None dataspace_type = (BAD_BUFFER, []) \<and>
   get sample_gralloc4 (Some sample_buffer) dataspace_type = (NONE, [0, 0, 0, 0]) \<and>
   get sample_gralloc4 (Some sample_buffer) (dataspace_type\<lparr>type_value := 3\<rparr>)
     = (UNSUPPORTED, []) \<and>
   get sample_gralloc4 (Some sample_buffer) (dataspace_type\<lparr>type_name := ''vendor.type''\<rparr>)
     = (UNSUPPORTED, [])"
  using get_result [of sample_gralloc4 dataspace_type sample_buffer]
    get_result [of sample_gralloc4 "dataspace_type\<lparr>type_value := 3\<rparr>" sample_buffer]
    get_result [of sample_gralloc4 "dataspace_type\<lparr>type_name := ''vendor.type''\<rparr>"
      sample_buffer]
  by (simp add: sample_gralloc4_def dataspace_type_def DATASPACE_def UNKNOWN_def)

section \<open>unlock\<close>

text \<open>
  Claim C5. For a non-null buffer handle on which the driver's unlock reports status
  zero, \<open>unlock\<close> returns \<open>NONE\<close> and a null release-fence handle: the descriptor
  obtained from \<open>Fence::NO_FENCE\<close> is negative, so \<open>getFenceHandle\<close> wraps no
  descriptor. This holds for the 2.0 mapper (\<open>gbm_mod_unlock\<close>) and for the 4.0
  mapper (\<open>drm_unlock\<close>).
\<close>

theorem unlock_release_fence:
  "(fst (gbm_mod_unlock e (ext w) h) = 0 \<longrightarrow> fst (unlock_v2 e (Some h) w) = (NONE, None)) \<and>
   (fst (drm_unlock e (ext w) h) = 0 \<longrightarrow> fst (unlock_v4 e (Some h) w) = (NONE, None))"
  by (simp add: unlock_v2_def unlock_v4_def ext_call_def Fence_dup_def sys_dup_def NO_FENCE_def
      getFenceHandle_def split: prod.splits)

theorem unlock_release_fence_witness:
  "fst (gbm_mod_unlock (sample_env 0) (ext sample_world) sample_buffer) = 0 \<and>
   fst (unlock_v2 (sample_env 0) (Some sample_buffer) sample_world) = (NONE, None) \<and>
   fst (drm_unlock (sample_env 0) (ext sample_world) sample_buffer) = 0 \<and>
   fst (unlock_v4 (sample_env 0) (Some sample_buffer) sample_world) = (NONE, None)"
  using unlock_release_fence [of "sample_env 0" sample_world sample_buffer]
  by (simp add: sample_env_def)

section \<open>createDescriptor: accepted descriptions\<close>

text \<open>
  The 4.0 mapper reports \<open>BAD_VALUE\<close> when the platform encoder reports a failure,
  also for a description that passed every check.
\<close>

theorem createDescriptor_v4_encoder_failure:
  "width sample_info_v4 \<noteq> 0 \<and> height sample_info_v4 \<noteq> 0 \<and> layerCount sample_info_v4 = 1 \<and>
   format sample_info_v4 \<noteq> 0 \<and>
   fst (createDescriptor_v4 (sample_encode_v4 (- 22)) sample_info_v4) = BAD_VALUE \<and>
   fst (createDescriptor_v4 (sample_encode_v4 (- 22)) sample_info_v4) \<noteq> NONE"
  by (simp add: createDescriptor_v4_def sample_info_v4_def sample_encode_v4_def)

text \<open>
  Claim C6, as amended. For a description with non-zero width, non-zero height,
  layerCount 1 and non-zero format, whatever its usage bits: the 2.0 mapper returns
  \<open>NONE\<close> with the encoded descriptor; the 4.0 mapper returns the descriptor the
  encoder wrote, with \<open>NONE\<close> when the encoder reports status zero and \<open>BAD_VALUE\<close>
  when it reports a failure. Usage bits outside the valid mask are logged (one warning
  that prints them) and are not examined otherwise.
\<close>

theorem createDescriptor_accepts:
  "(width i \<noteq> 0 \<and> height i \<noteq> 0 \<and> layerCount i = 1 \<and> format i \<noteq> 0 \<longrightarrow>
      createDescriptor_v2 enc2 i =
        (NONE, enc2 i,
         if usage i AND NOT getValidBufferUsageMask \<noteq> 0
         then [usage i AND NOT getValidBufferUsageMask] else [])) \<and>
   (width j \<noteq> 0 \<and> height j \<noteq> 0 \<and> layerCount j = 1 \<and> format j \<noteq> 0 \<longrightarrow>
      createDescriptor_v4 enc4 j =
        (if fst (enc4 j) \<noteq> 0 then BAD_VALUE else NONE, snd (enc4 j),
         if usage j AND NOT getValidBufferUsageMask \<noteq> 0
         then [usage j AND NOT getValidBufferUsageMask] else []))"
  by (simp add: createDescriptor_v2_def createDescriptor_v4_def Let_def split: prod.splits)

theorem createDescriptor_accepts_witness:
  "createDescriptor_v2 sample_encode_v2 (sample_info\<lparr>usage := 0x433\<rparr>)
     = (NONE, [640, 480, 1, 1, 0x433, 0], [0x400]) \<and>
   createDescriptor_v2 sample_encode_v2 sample_info = (NONE, [640, 480, 1, 1, 0x33, 0], []) \<and>
   createDescriptor_v4 (sample_encode_v4 0) (sample_info_v4\<lparr>usage := 0x433\<rparr>)
     = (NONE, [128, 224], [0x400]) \<and>
   createDescriptor_v4 (sample_encode_v4 (- 22)) (sample_info_v4\<lparr>usage := 0x433\<rparr>)
     = (BAD_VALUE, [], [0x400])"
  using createDescriptor_accepts [of "sample_info\<lparr>usage := 0x433\<rparr>" sample_encode_v2
      "sample_info_v4\<lparr>usage := 0x433\<rparr>" "sample_encode_v4 0"]
    createDescriptor_accepts [of sample_info sample_encode_v2
      "sample_info_v4\<lparr>usage := 0x433\<rparr>" "sample_encode_v4 (- 22)"]
  by (simp add: sample_info_def sample_info_v4_def sample_encode_v2_def sample_encode_v4_def
      getValidBufferUsageMask_value)

section \<open>importBuffer with a null handle\<close>

text \<open>
  Claim C7. \<open>importBuffer\<close> with a null raw handle returns \<open>BAD_BUFFER\<close> and a null
  handle, in both mappers, and leaves the world as it was: no external call is made, so
  neither \<open>gbm_mod_register\<close> nor \<open>drm_register\<close> is called and the driver's state
  is unchanged.
\<close>

theorem importBuffer_null:
  "importBuffer_v2 e None w = ((BAD_BUFFER, None), w) \<and>
   importBuffer_v4 e kms_fd None w = ((BAD_BUFFER, None), w)"
  by (simp add: importBuffer_v2_def importBuffer_v4_def)

theorem importBuffer_null_witness:
  "importBuffer_v2 (sample_env 0) None sample_world
     = ((BAD_BUFFER, None), \<lparr>ext = 1, calls = []\<rparr>) \<and>
   importBuffer_v4 (sample_env 0) 3 None sample_world
     = ((BAD_BUFFER, None), \<lparr>ext = 1, calls = []\<rparr>)"
  using importBuffer_null [of "sample_env 0" sample_world 3]
  by (simp add: sample_world_def)

section \<open>lock with a fence handle of several descriptors\<close>

text \<open>
  Claim C8. With a non-null buffer handle and an acquire-fence handle whose
  \<open>numFds\<close> is greater than 1, \<open>lock\<close> (2.0 and 4.0) and \<open>lockYCbCr\<close> return
  \<open>BAD_VALUE\<close> (with a null pointer, a zero layout) and leave the world as it was: no
  descriptor is duplicated, no fence is waited on and the driver's lock is not called.
\<close>

theorem lock_rejects_fence_of_several_fds:
  "numFds fence > 1 \<Longrightarrow>
     lock_v2 e (Some h) cpuUsage r (Some fence) w = Some ((BAD_VALUE, None), w) \<and>
     lockYCbCr e (Some h) cpuUsage r (Some fence) w = Some ((BAD_VALUE, YCbCrLayout_zero), w) \<and>
     lock_v4 e (Some h) cpuUsage r (Some fence) w = Some ((BAD_VALUE, None), w)"
  by (simp add: lock_v2_def lockYCbCr_def lock_v4_def getFenceFd_def)

theorem lock_rejects_fence_of_several_fds_witness:
  "numFds two_fd_fence > 1 \<and>
   lock_v2 (sample_env 0) (Some sample_buffer) 0x33 sample_rect (Some two_fd_fence) sample_world
     = Some ((BAD_VALUE, None), \<lparr>ext = 1, calls = []\<rparr>) \<and>
   lockYCbCr (sample_env 0) (Some sample_buffer) 0x33 sample_rect (Some two_fd_fence)
       sample_world
     = Some ((BAD_VALUE, YCbCrLayout_zero), \<lparr>ext = 1, calls = []\<rparr>) \<and>
   lock_v4 (sample_env 0) (Some sample_buffer) 0x33 sample_rect (Some two_fd_fence) sample_world
     = Some ((BAD_VALUE, None), \<lparr>ext = 1, calls = []\<rparr>)"
proof -
  have several: "numFds two_fd_fence > 1"
    by (simp add: two_fd_fence_def)
  show ?thesis
    using several
      lock_rejects_fence_of_several_fds [OF several, of "sample_env 0" sample_buffer "0x33"
        sample_rect sample_world]
    by (simp add: sample_world_def)
qed

section \<open>flushLockedBuffer\<close>

text \<open>
  Claim C9. In the 4.0 mapper \<open>flushLockedBuffer\<close> and \<open>unlock\<close> are the same
  function of the buffer and the world: the same error, the same release-fence handle,
  the same external calls and the same driver state. For a non-null buffer the first
  call both make is \<open>drm_unlock\<close> on that buffer.
\<close>

theorem flushLockedBuffer_is_unlock:
  "flushLockedBuffer e buffer w = unlock_v4 e buffer w \<and>
   take (Suc (length (calls w))) (calls (snd (flushLockedBuffer e (Some h) w)))
     = calls w @ [Ev_drm_unlock h]"
  by (auto simp add: flushLockedBuffer_def unlock_v4_def ext_call_def Fence_dup_def
      sys_dup_def split: prod.splits)

theorem flushLockedBuffer_is_unlock_witness:
  "flushLockedBuffer (sample_env 0) (Some sample_buffer) sample_world
     = unlock_v4 (sample_env 0) (Some sample_buffer) sample_world \<and>
   flushLockedBuffer (sample_env (- 1)) (Some sample_buffer) sample_world
     = unlock_v4 (sample_env (- 1)) (Some sample_buffer) sample_world \<and>
   flushLockedBuffer (sample_env 0) None sample_world
     = unlock_v4 (sample_env 0) None sample_world"
  using flushLockedBuffer_is_unlock [of "sample_env 0" "Some sample_buffer" sample_world]
    flushLockedBuffer_is_unlock [of "sample_env (- 1)" "Some sample_buffer" sample_world]
    flushLockedBuffer_is_unlock [of "sample_env 0" None sample_world]
  by simp

section \<open>listSupportedMetadataTypes\<close>

text \<open>
  Claim C10. \<open>listSupportedMetadataTypes\<close> returns \<open>NONE\<close> with an empty list,
  although \<open>get\<close> on a non-null buffer answers the standard metadata type
  \<open>DATASPACE\<close> with \<open>NONE\<close>.
\<close>

theorem listSupportedMetadataTypes_empty:
  "listSupportedMetadataTypes = (NONE, []) \<and>
   (isStandardMetadataType g t \<and> getStandardMetadataTypeValue g t = DATASPACE
      \<longrightarrow> fst (get g (Some h) t) = NONE)"
  by (simp add: listSupportedMetadataTypes_def get_def split: prod.splits)

theorem listSupportedMetadataTypes_empty_witness:
  "listSupportedMetadataTypes = (NONE, []) \<and>
   isStandardMetadataType sample_gralloc4 dataspace_type \<and>
   getStandardMetadataTypeValue sample_gralloc4 dataspace_type = DATASPACE \<and>
   fst (get sample_gralloc4 (Some sample_buffer) dataspace_type) = NONE"
  using listSupportedMetadataTypes_empty [of sample_gralloc4 dataspace_type sample_buffer]
  by (simp add: sample_gralloc4_def dataspace_type_def DATASPACE_def)

end
